theory Spec2Isabelle
  imports Complex_Main "HOL-Library.Log_Nat"
begin

section \<open>Data model of the approval workflow (nodejs-backend)\<close>

text \<open>
  The tables of the backend's store, as the migration declares them, restricted to the
  columns that \<^verbatim>\<open>utils/approvalWorkflow.js\<close> reads or writes. Identifiers are the
  store's integers, nullable columns are options, timestamps are natural numbers.
  The status column of an approval is only ever written with one of three literals
  (\<^verbatim>\<open>'PENDING'\<close> at creation, the decision of an approver afterwards); the status of an
  expense additionally knows \<^verbatim>\<open>'CANCELLED'\<close>.
\<close>

datatype approvalStatus = PENDING | APPROVED | REJECTED

datatype expenseStatus =
  ExpensePENDING | ExpenseAPPROVED | ExpenseREJECTED | ExpenseCANCELLED

record user =
  userId :: int
  userCompanyId :: int
  fullName :: string
  role :: string
  reportsTo :: "int option"
  userIsActive :: bool

record expense =
  expId :: int
  expUserId :: int
  expCompanyId :: int
  expStatus :: expenseStatus
  expUpdatedAt :: nat

record expenseApproval =
  approvalId :: int
  expenseId :: int
  approverId :: "int option"
  approverRole :: "string option"
  status :: approvalStatus
  comment :: "string option"
  order :: int
  createdAt :: nat
  updatedAt :: nat

text \<open>
  A threshold is a JavaScript number, an IEEE-754 double: \<open>Num m e\<close> is the number
  \<open>m * 2\<^sup>e\<close>, a double when \<open>\<bar>m\<bar> < 2\<^sup>5\<^sup>3\<close>. The numbers of the model are finite, and
  the range of the exponent is not modelled: a product that overflows to an infinity in
  JavaScript is a finite number of the same sign here, beyond every count of steps.
\<close>

datatype jsNumber = Num int int

text \<open>
  The \<^verbatim>\<open>config\<close> column of a rule is a JSON object; the evaluator reads two of its
  properties, either of which may be missing.
\<close>

record ruleConfig =
  percentageThreshold :: "jsNumber option"
  cfgSpecificRole :: "string option"

text \<open>
  The rule type is free text in the store; the evaluator compares it with three
  literals and ignores a rule of any other type.
\<close>

record approvalRule =
  ruleCompanyId :: int
  ruleType :: string
  threshold :: "jsNumber option"
  specificApproverId :: "int option"
  specificRole :: "string option"
  config :: "ruleConfig option"
  ruleIsActive :: bool

text \<open>
  A step of a company's sequence definition: its \<^verbatim>\<open>type\<close> is one of
  \<^verbatim>\<open>'user'\<close> (the value is a user id), \<^verbatim>\<open>'role'\<close> (the value is a role name),
  \<^verbatim>\<open>'manager'\<close>; a step of any other type falls through every branch of the builder.
\<close>

datatype sequenceStep =
  StepUser int | StepRole string | StepManager | StepOther string

record approvalSequence =
  seqCompanyId :: int
  seqIsActive :: bool
  sequence :: "sequenceStep list"

record store =
  users :: "user list"
  expenses :: "expense list"
  approvalSequences :: "approvalSequence list"
  expenseApprovals :: "expenseApproval list"
  approvalRules :: "approvalRule list"

datatype error = Error string

section \<open>The result of an evaluation\<close>

text \<open>
  The reason of a verdict; the percentage quoted by the first one is
  \<^verbatim>\<open>Math.round(rule.threshold * 100)\<close>.
\<close>

datatype reason =
  RejectedByApprover
  | PercentageRuleSatisfied int
  | SpecificApproverApproved
  | SpecificRoleApproved string
  | HybridRuleSatisfied
  | AllApprovalsCompleted
  | AwaitingMoreApprovals

record evaluation =
  finalDecision :: "approvalStatus option"
  reason :: reason
  rejectedBy :: "string option"
  rejectionComment :: "string option"
  approvedBy :: "string option"
  pendingApprovals :: "nat option"
  totalApprovals :: "nat option"

section \<open>JavaScript values\<close>

text \<open>Truthiness of a nullable integer and of a nullable string.\<close>

definition truthyNumber :: "int option \<Rightarrow> bool" where
  "truthyNumber v = (case v of None \<Rightarrow> False | Some n \<Rightarrow> n \<noteq> 0)"

definition truthyString :: "string option \<Rightarrow> bool" where
  "truthyString v = (case v of None \<Rightarrow> False | Some s \<Rightarrow> s \<noteq> [])"

subsection \<open>Numbers\<close>


text \<open>
  The integer nearest to \<open>a / b\<close> for \<open>b > 0\<close>, a tie going to the even one: the
  rounding of IEEE-754 arithmetic.
\<close>

definition roundHalfEven :: "int \<Rightarrow> int \<Rightarrow> int" where
  "roundHalfEven a b =
     (let q = a div b; r = a mod b
      in if 2 * r < b then q
         else if b < 2 * r then q + 1
         else if even q then q else q + 1)"

text \<open>
  The product \<^verbatim>\<open>n * x\<close> of an integer and a number, as in
  \<^verbatim>\<open>totalApprovals * rule.threshold\<close> and \<^verbatim>\<open>rule.threshold * 100\<close>: the exact product
  when it has at most 53 significant bits, otherwise the exact product rounded to 53
  significant bits. The integer is an array length or 100, which is a double.
\<close>

definition timesInt :: "int \<Rightarrow> jsNumber \<Rightarrow> jsNumber" where
  "timesInt n x =
     (case x of Num m e \<Rightarrow>
        (let p = n * m
         in if \<bar>p\<bar> < 2 ^ 53 then Num p e
            else (let s = bitlen \<bar>p\<bar> - 53
                  in Num (roundHalfEven p (2 ^ nat s)) (e + s))))"

text \<open>\<^verbatim>\<open>Math.ceil\<close>: the least integer not below the number.\<close>

definition mathCeil :: "jsNumber \<Rightarrow> int" where
  "mathCeil x =
     (case x of Num m e \<Rightarrow>
        if 0 \<le> e then m * 2 ^ nat e else - ((- m) div 2 ^ nat (- e)))"

text \<open>\<^verbatim>\<open>Math.round\<close>: the nearest integer, a half rounded up.\<close>

definition mathRound :: "jsNumber \<Rightarrow> int" where
  "mathRound x =
     (case x of Num m e \<Rightarrow>
        if 0 \<le> e then m * 2 ^ nat e else (m + 2 ^ nat (- e - 1)) div 2 ^ nat (- e))"

text \<open>A nullable number in arithmetic: \<^verbatim>\<open>null\<close> counts as 0.\<close>

definition toNumber :: "jsNumber option \<Rightarrow> jsNumber" where
  "toNumber v = (case v of None \<Rightarrow> Num 0 0 | Some t \<Rightarrow> t)"

text \<open>
  \<^verbatim>\<open>config.percentageThreshold || 0.5\<close>: a missing threshold and the threshold 0 are
  falsy and give 0.5, which is \<open>1 * 2\<^sup>-\<^sup>1\<close>.
\<close>

definition thresholdOrDefault :: "jsNumber option \<Rightarrow> jsNumber" where
  "thresholdOrDefault v =
     (case v of
        None \<Rightarrow> Num 1 (- 1)
      | Some (Num m e) \<Rightarrow> if m = 0 then Num 1 (- 1) else Num m e)"

text \<open>\<^verbatim>\<open>Math.ceil(totalApprovals * threshold)\<close>\<close>

definition requiredApprovals :: "nat \<Rightarrow> jsNumber \<Rightarrow> int" where
  "requiredApprovals n t = mathCeil (timesInt (int n) t)"



subsection \<open>Strings\<close>

text \<open>\<^verbatim>\<open>names.join(', ')\<close>, where an undefined element prints as the empty string.\<close>

fun joinNames :: "string option list \<Rightarrow> string" where
  "joinNames [] = []"
| "joinNames [n] = (case n of None \<Rightarrow> [] | Some s \<Rightarrow> s)"
| "joinNames (n # m # ns) = (case n of None \<Rightarrow> [] | Some s \<Rightarrow> s) @ '', '' @ joinNames (m # ns)"

section \<open>evaluateApprovalRules\<close>

text \<open>\<^verbatim>\<open>a.approver?.fullName\<close> under \<^verbatim>\<open>include: { approver: true }\<close>\<close>

definition approverFullName :: "user list \<Rightarrow> expenseApproval \<Rightarrow> string option" where
  "approverFullName us a =
     (case approverId a of
        None \<Rightarrow> None
      | Some u \<Rightarrow> map_option fullName (find (\<lambda>x. userId x = u) us))"

definition approvedApprovals :: "expenseApproval list \<Rightarrow> expenseApproval list" where
  "approvedApprovals approvals = filter (\<lambda>a. status a = APPROVED) approvals"

definition pendingApprovalsOf :: "expenseApproval list \<Rightarrow> expenseApproval list" where
  "pendingApprovalsOf approvals = filter (\<lambda>a. status a = PENDING) approvals"

definition approvedResult :: "reason \<Rightarrow> string option \<Rightarrow> evaluation" where
  "approvedResult r by =
     \<lparr>finalDecision = Some APPROVED, reason = r, rejectedBy = None,
      rejectionComment = None, approvedBy = by, pendingApprovals = None,
      totalApprovals = None\<rparr>"

definition approvedByAll :: "user list \<Rightarrow> expenseApproval list \<Rightarrow> string option" where
  "approvedByAll us approvals =
     Some (joinNames (map (approverFullName us) (approvedApprovals approvals)))"

text \<open>
  The Hybrid rule reads its threshold and its role from the config:
  \<^verbatim>\<open>(rule.config || {}).percentageThreshold || 0.5\<close> and
  \<^verbatim>\<open>(rule.config || {}).specificRole\<close>.
\<close>

definition hybridThreshold :: "approvalRule \<Rightarrow> jsNumber" where
  "hybridThreshold rule =
     thresholdOrDefault (case config rule of None \<Rightarrow> None | Some c \<Rightarrow> percentageThreshold c)"

definition hybridRole :: "approvalRule \<Rightarrow> string option" where
  "hybridRole rule = (case config rule of None \<Rightarrow> None | Some c \<Rightarrow> cfgSpecificRole c)"

text \<open>
  \<^verbatim>\<open>specificSatisfied\<close> of the Hybrid rule: a role is configured and the first step
  with that role label is APPROVED.
\<close>

definition specificSatisfied :: "expenseApproval list \<Rightarrow> string option \<Rightarrow> bool" where
  "specificSatisfied approvals r =
     (if truthyString r then
        (case find (\<lambda>a. approverRole a = r) approvals of
           None \<Rightarrow> False
         | Some roleApproval \<Rightarrow> status roleApproval = APPROVED)
      else False)"

text \<open>
  The body of the loop over the rules: \<open>Some\<close> is the \<^verbatim>\<open>return\<close> of a satisfied rule,
  \<open>None\<close> lets the loop go on to the next rule.
\<close>

definition evaluateRule ::
  "user list \<Rightarrow> expenseApproval list \<Rightarrow> approvalRule \<Rightarrow> evaluation option" where
  "evaluateRule us approvals rule =
     (if ruleType rule = ''PERCENTAGE'' then
        (if requiredApprovals (length approvals) (toNumber (threshold rule))
              \<le> int (length (approvedApprovals approvals))
         then Some (approvedResult
                (PercentageRuleSatisfied (mathRound (timesInt 100 (toNumber (threshold rule)))))
                (approvedByAll us approvals))
         else None)
      else if ruleType rule = ''SPECIFIC'' then
        (if truthyNumber (specificApproverId rule) then
           (case find (\<lambda>a. approverId a = specificApproverId rule) approvals of
              None \<Rightarrow> None
            | Some specificApproval \<Rightarrow>
                if status specificApproval = APPROVED
                then Some (approvedResult SpecificApproverApproved
                       (approverFullName us specificApproval))
                else None)
         else if truthyString (specificRole rule) then
           (case find (\<lambda>a. approverRole a = specificRole rule) approvals of
              None \<Rightarrow> None
            | Some roleApproval \<Rightarrow>
                if status roleApproval = APPROVED
                then Some (approvedResult (SpecificRoleApproved (the (specificRole rule)))
                       (approverFullName us roleApproval))
                else None)
         else None)
      else if ruleType rule = ''HYBRID'' then
        (let percentageSatisfied =
               (requiredApprovals (length approvals) (hybridThreshold rule)
                  \<le> int (length (approvedApprovals approvals)))
         in if percentageSatisfied \<or> specificSatisfied approvals (hybridRole rule)
            then Some (approvedResult HybridRuleSatisfied (approvedByAll us approvals))
            else None)
      else None)"

fun evaluateRuleLoop ::
  "user list \<Rightarrow> expenseApproval list \<Rightarrow> approvalRule list \<Rightarrow> evaluation option" where
  "evaluateRuleLoop us approvals [] = None"
| "evaluateRuleLoop us approvals (rule # rules) =
     (case evaluateRule us approvals rule of
        Some result \<Rightarrow> Some result
      | None \<Rightarrow> evaluateRuleLoop us approvals rules)"

text \<open>
  The evaluator once the expense's approvals (with their approvers) and the company's
  active rules have been read: rejection check, rules, default.
\<close>

definition evaluateRules ::
  "user list \<Rightarrow> expenseApproval list \<Rightarrow> approvalRule list \<Rightarrow> evaluation" where
  "evaluateRules us approvals rules =
     (case find (\<lambda>a. status a = REJECTED) approvals of
        Some rejectedApproval \<Rightarrow>
          \<lparr>finalDecision = Some REJECTED, reason = RejectedByApprover,
           rejectedBy = approverFullName us rejectedApproval,
           rejectionComment = comment rejectedApproval, approvedBy = None,
           pendingApprovals = None, totalApprovals = None\<rparr>
      | None \<Rightarrow>
          (case evaluateRuleLoop us approvals rules of
             Some result \<Rightarrow> result
           | None \<Rightarrow>
               if length (pendingApprovalsOf approvals) = 0
                  \<and> 0 < length (approvedApprovals approvals)
               then approvedResult AllApprovalsCompleted (approvedByAll us approvals)
               else \<lparr>finalDecision = None, reason = AwaitingMoreApprovals,
                     rejectedBy = None, rejectionComment = None, approvedBy = None,
                     pendingApprovals = Some (length (pendingApprovalsOf approvals)),
                     totalApprovals = Some (length approvals)\<rparr>))"

text \<open>
  The three reads of the evaluator. \<^verbatim>\<open>orderBy: { order: 'asc' }\<close> is a stable sort on
  the order column; the rules come in the order the store holds them.
\<close>

definition approvalsOfExpense :: "store \<Rightarrow> int \<Rightarrow> expenseApproval list" where
  "approvalsOfExpense db eid =
     sort_key order (filter (\<lambda>a. expenseId a = eid) (expenseApprovals db))"

definition activeRules :: "store \<Rightarrow> int \<Rightarrow> approvalRule list" where
  "activeRules db cid =
     filter (\<lambda>r. ruleCompanyId r = cid \<and> ruleIsActive r) (approvalRules db)"

definition evaluateApprovalRules :: "store \<Rightarrow> int \<Rightarrow> error + evaluation" where
  "evaluateApprovalRules db eid =
     (case find (\<lambda>e. expId e = eid) (expenses db) of
        None \<Rightarrow> Inl (Error ''Expense not found'')
      | Some e \<Rightarrow>
          Inr (evaluateRules (users db) (approvalsOfExpense db eid)
                 (activeRules db (expCompanyId e))))"

section \<open>createApprovalSequence\<close>

text \<open>
  \<^verbatim>\<open>String.prototype.toUpperCase\<close> is the case mapping of the JavaScript engine, whose
  tables are not part of the repository: the builder takes it as its first parameter.
\<close>

type_synonym caseMapping = "string \<Rightarrow> string"

text \<open>
  \<^verbatim>\<open>prisma.user.findUnique({ where: { id: userId }, include: { manager: true } })\<close>
  followed by the test \<^verbatim>\<open>user && user.manager\<close>: the manager is the user that the
  \<^verbatim>\<open>reportsTo\<close> column refers to.
\<close>

definition managerOf :: "store \<Rightarrow> int \<Rightarrow> user option" where
  "managerOf db uid =
     (case find (\<lambda>u. userId u = uid) (users db) of
        None \<Rightarrow> None
      | Some u \<Rightarrow>
          (case reportsTo u of
             None \<Rightarrow> None
           | Some m \<Rightarrow> find (\<lambda>x. userId x = m) (users db)))"

text \<open>
  \<^verbatim>\<open>prisma.expenseApproval.create\<close>: the store numbers the new row after the rows
  it holds and appends it. The operations of the store itself are taken to succeed.
\<close>

definition nextApprovalId :: "store \<Rightarrow> int" where
  "nextApprovalId db = foldr max (map approvalId (expenseApprovals db)) 0 + 1"

definition createApproval ::
  "nat \<Rightarrow> int \<Rightarrow> int \<Rightarrow> string option \<Rightarrow> int \<Rightarrow> store \<Rightarrow> expenseApproval \<times> store" where
  "createApproval now eid aid arole ord db =
     (let approval =
            \<lparr>approvalId = nextApprovalId db, expenseId = eid, approverId = Some aid,
             approverRole = arole, status = PENDING, comment = None, order = ord,
             createdAt = now, updatedAt = now\<rparr>
      in (approval, db\<lparr>expenseApprovals := expenseApprovals db @ [approval]\<rparr>))"

text \<open>
  The branches on \<^verbatim>\<open>step.type\<close>: the pair \<^verbatim>\<open>(approverId, approverRole)\<close> as it
  stands when the body reaches \<^verbatim>\<open>if (approverId)\<close>.
\<close>

definition resolveStep ::
  "caseMapping \<Rightarrow> store \<Rightarrow> int \<Rightarrow> int \<Rightarrow> sequenceStep \<Rightarrow> int option \<times> string option" where
  "resolveStep toUpperCase db cid uid step =
     (case step of
        StepUser v \<Rightarrow> (Some v, None)
      | StepRole v \<Rightarrow>
          (case find (\<lambda>u. userCompanyId u = cid \<and> role u = toUpperCase v \<and> userIsActive u)
                  (users db) of
             Some approver \<Rightarrow> (Some (userId approver), Some (toUpperCase v))
           | None \<Rightarrow> (None, None))
      | StepManager \<Rightarrow>
          (case managerOf db uid of
             Some m \<Rightarrow> (Some (userId m), Some ''MANAGER'')
           | None \<Rightarrow> (None, None))
      | StepOther t \<Rightarrow> (None, None))"

text \<open>
  The test \<^verbatim>\<open>if (approverId)\<close> of the loop body: the step has been resolved to
  an approver.
\<close>

definition resolves :: "caseMapping \<Rightarrow> store \<Rightarrow> int \<Rightarrow> int \<Rightarrow> sequenceStep \<Rightarrow> bool" where
  "resolves toUpperCase db cid uid step =
     truthyNumber (fst (resolveStep toUpperCase db cid uid step))"

text \<open>
  The loop \<^verbatim>\<open>for (let i = 0; i < sequenceSteps.length; i++)\<close>, entered at index \<open>i\<close>
  with the steps from \<open>i\<close> on; it returns the approvals pushed and the store.
\<close>

fun sequenceLoop ::
  "caseMapping \<Rightarrow> nat \<Rightarrow> int \<Rightarrow> int \<Rightarrow> int \<Rightarrow> nat \<Rightarrow> sequenceStep list \<Rightarrow> store
     \<Rightarrow> expenseApproval list \<times> store" where
  "sequenceLoop toUpperCase now eid cid uid i [] db = ([], db)"
| "sequenceLoop toUpperCase now eid cid uid i (step # steps) db =
     (case resolveStep toUpperCase db cid uid step of
        (approverId', approverRole') \<Rightarrow>
          if truthyNumber approverId' then
            (case createApproval now eid (the approverId') approverRole' (int i) db of
               (approval, db') \<Rightarrow>
                 (case sequenceLoop toUpperCase now eid cid uid (Suc i) steps db' of
                    (approvals, db'') \<Rightarrow> (approval # approvals, db'')))
          else sequenceLoop toUpperCase now eid cid uid (Suc i) steps db)"

text \<open>
  The active sequence of the company if there is one (its \<^verbatim>\<open>sequence\<close> is an array,
  which is truthy even when empty), otherwise the fallback to the submitter's manager.
  The function returns the approvals it pushed; the second component is the store
  after the creations.
\<close>

definition createApprovalSequence ::
  "caseMapping \<Rightarrow> nat \<Rightarrow> store \<Rightarrow> int \<Rightarrow> int \<Rightarrow> int \<Rightarrow> expenseApproval list \<times> store" where
  "createApprovalSequence toUpperCase now db eid cid uid =
     (case find (\<lambda>s. seqCompanyId s = cid \<and> seqIsActive s) (approvalSequences db) of
        Some seq \<Rightarrow> sequenceLoop toUpperCase now eid cid uid 0 (sequence seq) db
      | None \<Rightarrow>
          (case managerOf db uid of
             Some m \<Rightarrow>
               (case createApproval now eid (userId m) (Some ''MANAGER'') 0 db of
                  (approval, db') \<Rightarrow> ([approval], db'))
           | None \<Rightarrow> ([], db)))"

section \<open>processApproval\<close>

text \<open>
  \<^verbatim>\<open>prisma.expenseApproval.updateMany\<close> with the filter on expense, approver and
  PENDING status: every matching row is written, and the number of rows is returned.
\<close>

definition pendingStepOf :: "int \<Rightarrow> int \<Rightarrow> expenseApproval \<Rightarrow> bool" where
  "pendingStepOf eid uid a =
     (expenseId a = eid \<and> approverId a = Some uid \<and> status a = PENDING)"

definition updateManyPending ::
  "nat \<Rightarrow> int \<Rightarrow> int \<Rightarrow> approvalStatus \<Rightarrow> string option \<Rightarrow> store \<Rightarrow> nat \<times> store" where
  "updateManyPending now eid uid decision cmt db =
     (length (filter (pendingStepOf eid uid) (expenseApprovals db)),
      db\<lparr>expenseApprovals :=
           map (\<lambda>a. if pendingStepOf eid uid a
                    then a\<lparr>status := decision, comment := cmt, updatedAt := now\<rparr>
                    else a)
               (expenseApprovals db)\<rparr>)"

definition toExpenseStatus :: "approvalStatus \<Rightarrow> expenseStatus" where
  "toExpenseStatus s =
     (case s of PENDING \<Rightarrow> ExpensePENDING | APPROVED \<Rightarrow> ExpenseAPPROVED
      | REJECTED \<Rightarrow> ExpenseREJECTED)"

definition updateExpenseStatus :: "nat \<Rightarrow> int \<Rightarrow> approvalStatus \<Rightarrow> store \<Rightarrow> store" where
  "updateExpenseStatus now eid s db =
     db\<lparr>expenses :=
          map (\<lambda>e. if expId e = eid
                   then e\<lparr>expStatus := toExpenseStatus s, expUpdatedAt := now\<rparr>
                   else e)
              (expenses db)\<rparr>"

text \<open>
  The function returns its result or throws, and in both cases leaves the store as
  the writes made so far have left it: the second component is the store afterwards.
\<close>

definition processApproval ::
  "nat \<Rightarrow> store \<Rightarrow> int \<Rightarrow> int \<Rightarrow> approvalStatus \<Rightarrow> string option
     \<Rightarrow> (error + evaluation) \<times> store" where
  "processApproval now db eid uid decision cmt =
     (case updateManyPending now eid uid decision cmt db of
        (count, db') \<Rightarrow>
          if count = 0 then (Inl (Error ''No pending approval found for this user''), db')
          else
            (case evaluateApprovalRules db' eid of
               Inl e \<Rightarrow> (Inl e, db')
             | Inr result \<Rightarrow>
                 (case finalDecision result of
                    Some d \<Rightarrow> (Inr result, updateExpenseStatus now eid d db')
                  | None \<Rightarrow> (Inr result, db'))))"

section \<open>A company for the examples\<close>

text \<open>
  One company with an employee (user 1) who reports to a manager (user 2), an
  administrator (user 3) and a second manager (user 4); one expense, number 1,
  submitted by the employee.
\<close>

definition exampleUsers :: "user list" where
  "exampleUsers =
     [\<lparr>userId = 1, userCompanyId = 1, fullName = ''Asha'', role = ''EMPLOYEE'',
       reportsTo = Some 2, userIsActive = True\<rparr>,
      \<lparr>userId = 2, userCompanyId = 1, fullName = ''Biju'', role = ''MANAGER'',
       reportsTo = Some 3, userIsActive = True\<rparr>,
      \<lparr>userId = 3, userCompanyId = 1, fullName = ''Chitra'', role = ''ADMIN'',
       reportsTo = None, userIsActive = True\<rparr>,
      \<lparr>userId = 4, userCompanyId = 1, fullName = ''Dev'', role = ''MANAGER'',
       reportsTo = Some 3, userIsActive = True\<rparr>]"

definition exampleExpense :: expense where
  "exampleExpense =
     \<lparr>expId = 1, expUserId = 1, expCompanyId = 1, expStatus = ExpensePENDING,
      expUpdatedAt = 0\<rparr>"

definition exampleStore ::
  "sequenceStep list option \<Rightarrow> expenseApproval list \<Rightarrow> approvalRule list \<Rightarrow> store" where
  "exampleStore steps approvals rules =
     \<lparr>users = exampleUsers,
      expenses = [exampleExpense],
      approvalSequences =
        (case steps of
           None \<Rightarrow> []
         | Some ss \<Rightarrow> [\<lparr>seqCompanyId = 1, seqIsActive = True, sequence = ss\<rparr>]),
      expenseApprovals = approvals,
      approvalRules = rules\<rparr>"

text \<open>An approval row of expense 1, and the three kinds of rule.\<close>

definition approvalRow ::
  "int \<Rightarrow> int \<Rightarrow> string option \<Rightarrow> approvalStatus \<Rightarrow> int \<Rightarrow> expenseApproval" where
  "approvalRow n uid r st ord =
     \<lparr>approvalId = n, expenseId = 1, approverId = Some uid, approverRole = r,
      status = st, comment = None, order = ord, createdAt = 0, updatedAt = 0\<rparr>"

definition percentageRule :: "jsNumber \<Rightarrow> approvalRule" where
  "percentageRule t =
     \<lparr>ruleCompanyId = 1, ruleType = ''PERCENTAGE'', threshold = Some t,
      specificApproverId = None, specificRole = None, config = None,
      ruleIsActive = True\<rparr>"

definition specificRoleRule :: "string \<Rightarrow> approvalRule" where
  "specificRoleRule r =
     \<lparr>ruleCompanyId = 1, ruleType = ''SPECIFIC'', threshold = None,
      specificApproverId = None, specificRole = Some r, config = None,
      ruleIsActive = True\<rparr>"



text \<open>
  The case mapping of the examples: \<^verbatim>\<open>toUpperCase\<close> on strings of ASCII characters,
  where it changes the letters a to z and nothing else. The strings of the examples
  are ASCII.
\<close>

definition upperChar :: "char \<Rightarrow> char" where
  "upperChar c =
     (let n = (of_char c :: nat) in if 97 \<le> n \<and> n \<le> 122 then char_of (n - 32) else c)"

definition asciiToUpperCase :: caseMapping where
  "asciiToUpperCase s = map upperChar s"

text \<open>
  The store after users 2 and 3 have approved, at times 1 and 2, an expense with three
  PENDING steps under a Percentage rule of 0.5.
\<close>

definition afterTwoApprovals :: store where
  "afterTwoApprovals =
     snd (processApproval 2
       (snd (processApproval 1
          (exampleStore None
             [approvalRow 1 2 None PENDING 0, approvalRow 2 3 None PENDING 1,
              approvalRow 3 4 None PENDING 2]
             [percentageRule (Num 1 (- 1))])
          1 2 APPROVED None))
       1 3 APPROVED None)"

section \<open>Unfolding the model on concrete stores\<close>

lemmas example_defs = exampleStore_def exampleUsers_def exampleExpense_def approvalRow_def
  percentageRule_def

lemmas number_defs = requiredApprovals_def timesInt_def mathCeil_def mathRound_def
  toNumber_def thresholdOrDefault_def roundHalfEven_def

lemmas evaluator_defs = evaluateApprovalRules_def evaluateRules_def evaluateRule_def
  approvalsOfExpense_def activeRules_def approvedApprovals_def pendingApprovalsOf_def
  approvedResult_def approvedByAll_def approverFullName_def truthyNumber_def truthyString_def
  hybridThreshold_def hybridRole_def specificSatisfied_def number_defs

lemmas builder_defs = createApprovalSequence_def resolveStep_def managerOf_def
  createApproval_def nextApprovalId_def truthyNumber_def

lemmas coordinator_defs = processApproval_def updateManyPending_def pendingStepOf_def
  updateExpenseStatus_def toExpenseStatus_def

section \<open>Rejection dominates\<close>

lemma set_approvalsOfExpense:
  "set (approvalsOfExpense db eid) = {a \<in> set (expenseApprovals db). expenseId a = eid}"
  by (auto simp: approvalsOfExpense_def)

text \<open>
  C1. Whatever rules the company has configured, an expense one of whose approval
  steps is REJECTED is evaluated to the verdict REJECTED: the rejection check comes
  before every rule, so neither approvals on the other steps nor a satisfied
  percentage rule change it.
\<close>

theorem rejection_dominates_rules:
  assumes "find (\<lambda>e. expId e = eid) (expenses db) = Some e"
    and "a \<in> set (expenseApprovals db)" and "expenseId a = eid" and "status a = REJECTED"
  shows "\<exists>r. evaluateApprovalRules db eid = Inr r \<and> finalDecision r = Some REJECTED
             \<and> reason r = RejectedByApprover"
proof -
  have "\<exists>x \<in> set (approvalsOfExpense db eid). status x = REJECTED"
    using assms(2-4) by (auto simp: set_approvalsOfExpense)
  then obtain ra where "find (\<lambda>a. status a = REJECTED) (approvalsOfExpense db eid) = Some ra"
    by (cases "find (\<lambda>a. status a = REJECTED) (approvalsOfExpense db eid)")
       (auto simp: find_None_iff)
  then show ?thesis
    using assms(1) by (simp add: evaluateApprovalRules_def evaluateRules_def)
qed

theorem rejection_dominates_rules_witness:
  "\<exists>r. evaluateApprovalRules
         (exampleStore None
            [approvalRow 1 2 None APPROVED 0, approvalRow 2 3 None REJECTED 1,
             approvalRow 3 4 None APPROVED 2]
            [percentageRule (Num 1 (- 1))]) 1 = Inr r
       \<and> finalDecision r = Some REJECTED \<and> reason r = RejectedByApprover"
  using rejection_dominates_rules
    [of 1 "exampleStore None
            [approvalRow 1 2 None APPROVED 0, approvalRow 2 3 None REJECTED 1,
             approvalRow 3 4 None APPROVED 2]
            [percentageRule (Num 1 (- 1))]" exampleExpense "approvalRow 2 3 None REJECTED 1"]
  by (simp add: exampleStore_def exampleExpense_def approvalRow_def)

section \<open>JavaScript arithmetic\<close>



lemma requiredApprovals_empty: "requiredApprovals 0 t = 0"
  by (cases t) (simp add: requiredApprovals_def timesInt_def mathCeil_def)




section \<open>Rules and the default policy\<close>

lemma evaluateApprovalRules_found:
  "find (\<lambda>e. expId e = eid) (expenses db) = Some e \<Longrightarrow>
   evaluateApprovalRules db eid =
     Inr (evaluateRules (users db) (approvalsOfExpense db eid) (activeRules db (expCompanyId e)))"
  by (simp add: evaluateApprovalRules_def)

lemma finalDecision_approvedResult [simp]:
  "finalDecision (approvedResult r b) = Some APPROVED"
  by (simp add: approvedResult_def)

lemma evaluateRule_Some_approved:
  "evaluateRule us approvals rule = Some res \<Longrightarrow> finalDecision res = Some APPROVED"
  by (auto simp: evaluateRule_def Let_def split: if_splits option.splits)

lemma evaluateRuleLoop_None_iff:
  "(evaluateRuleLoop us approvals rules = None) =
   (\<forall>r \<in> set rules. evaluateRule us approvals r = None)"
  by (induction rules) (auto split: option.splits)

lemma evaluateRuleLoop_Some_approved:
  "evaluateRuleLoop us approvals rules = Some res \<Longrightarrow> finalDecision res = Some APPROVED"
  by (induction rules) (auto split: option.splits dest: evaluateRule_Some_approved)

lemma find_rejected_None:
  "(find (\<lambda>a. status a = REJECTED) approvals = None) =
   (\<forall>a \<in> set approvals. status a \<noteq> REJECTED)"
  by (auto simp: find_None_iff)



lemma evaluateRules_no_rule_matched:
  assumes "\<forall>a \<in> set approvals. status a \<noteq> REJECTED"
    and "\<forall>r \<in> set rules. evaluateRule us approvals r = None"
  shows "evaluateRules us approvals rules =
     (if length (pendingApprovalsOf approvals) = 0 \<and> 0 < length (approvedApprovals approvals)
      then approvedResult AllApprovalsCompleted (approvedByAll us approvals)
      else \<lparr>finalDecision = None, reason = AwaitingMoreApprovals,
            rejectedBy = None, rejectionComment = None, approvedBy = None,
            pendingApprovals = Some (length (pendingApprovalsOf approvals)),
            totalApprovals = Some (length approvals)\<rparr>)"
proof -
  have "find (\<lambda>a. status a = REJECTED) approvals = None"
    using assms(1) by (simp add: find_rejected_None)
  moreover have "evaluateRuleLoop us approvals rules = None"
    using assms(2) by (simp add: evaluateRuleLoop_None_iff)
  ultimately show ?thesis by (simp add: evaluateRules_def)
qed







text \<open>
  C6. With no step REJECTED and no configured rule matching, the verdict is APPROVED
  exactly when no step is PENDING and at least one step is APPROVED; in every other
  such case the verdict is null and the result reports the number of pending steps.
\<close>

theorem default_policy_when_no_rule_matches:
  assumes found: "find (\<lambda>e. expId e = eid) (expenses db) = Some e"
    and norej: "\<forall>a \<in> set (approvalsOfExpense db eid). status a \<noteq> REJECTED"
    and none: "\<forall>r \<in> set (activeRules db (expCompanyId e)).
                 evaluateRule (users db) (approvalsOfExpense db eid) r = None"
  shows "\<exists>res. evaluateApprovalRules db eid = Inr res
           \<and> (finalDecision res = Some APPROVED) =
               (length (pendingApprovalsOf (approvalsOfExpense db eid)) = 0
                \<and> 1 \<le> length (approvedApprovals (approvalsOfExpense db eid)))
           \<and> (finalDecision res = Some APPROVED \<longrightarrow> reason res = AllApprovalsCompleted)
           \<and> (finalDecision res \<noteq> Some APPROVED \<longrightarrow>
                 finalDecision res = None \<and> reason res = AwaitingMoreApprovals
                 \<and> pendingApprovals res
                     = Some (length (pendingApprovalsOf (approvalsOfExpense db eid))))"
  unfolding evaluateApprovalRules_found [OF found]
    evaluateRules_no_rule_matched [OF norej none]
  by (auto simp: approvedResult_def Suc_le_eq)

theorem default_policy_when_no_rule_matches_witness:
  "(\<exists>res. evaluateApprovalRules
          (exampleStore None
             [approvalRow 1 2 None APPROVED 0, approvalRow 2 3 None APPROVED 1,
              approvalRow 3 4 None APPROVED 2] []) 1 = Inr res
        \<and> finalDecision res = Some APPROVED \<and> reason res = AllApprovalsCompleted)
   \<and> (\<exists>res. evaluateApprovalRules
          (exampleStore None
             [approvalRow 1 2 None APPROVED 0, approvalRow 2 3 None APPROVED 1,
              approvalRow 3 4 None PENDING 2] []) 1 = Inr res
        \<and> finalDecision res = None \<and> pendingApprovals res = Some 1)"
  using default_policy_when_no_rule_matches
    [of 1 "exampleStore None
             [approvalRow 1 2 None APPROVED 0, approvalRow 2 3 None APPROVED 1,
              approvalRow 3 4 None APPROVED 2] []" exampleExpense]
    default_policy_when_no_rule_matches
    [of 1 "exampleStore None
             [approvalRow 1 2 None APPROVED 0, approvalRow 2 3 None APPROVED 1,
              approvalRow 3 4 None PENDING 2] []" exampleExpense]
  by (auto simp add: example_defs approvalsOfExpense_def activeRules_def approvedApprovals_def
        pendingApprovalsOf_def)

section \<open>The Hybrid rule without a configured threshold\<close>




section \<open>processApproval without a pending step\<close>

lemma map_unchanged:
  "\<forall>x \<in> set xs. \<not> P x \<Longrightarrow> map (\<lambda>x. if P x then f x else x) xs = xs"
  by (induction xs) auto

lemma updateManyPending_none:
  assumes "\<forall>a \<in> set (expenseApprovals db). \<not> pendingStepOf eid uid a"
  shows "updateManyPending now eid uid decision cmt db = (0, db)"
proof -
  have "filter (pendingStepOf eid uid) (expenseApprovals db) = []"
    using assms by (simp add: filter_empty_conv)
  then show ?thesis
    using assms by (simp add: updateManyPending_def map_unchanged)
qed

text \<open>
  C7. When the acting approver has no PENDING step on the expense (the step is already
  decided, does not exist, or belongs to someone else), processApproval raises
  "No pending approval found for this user" and the store, with every approval step
  and the expense's status, is as it was.
\<close>

theorem processApproval_without_pending_step:
  assumes "\<forall>a \<in> set (expenseApprovals db). \<not> pendingStepOf eid uid a"
  shows "processApproval now db eid uid decision cmt
           = (Inl (Error ''No pending approval found for this user''), db)"
  by (simp add: processApproval_def updateManyPending_none [OF assms])

theorem processApproval_without_pending_step_witness:
  "processApproval 7
     (exampleStore None
        [approvalRow 1 2 None APPROVED 0, approvalRow 2 3 None PENDING 1] []) 1 2 REJECTED None
   = (Inl (Error ''No pending approval found for this user''),
      exampleStore None
        [approvalRow 1 2 None APPROVED 0, approvalRow 2 3 None PENDING 1] [])"
  using processApproval_without_pending_step
    [of "exampleStore None
           [approvalRow 1 2 None APPROVED 0, approvalRow 2 3 None PENDING 1] []" 1 2 7
        REJECTED None]
  by (simp add: exampleStore_def approvalRow_def pendingStepOf_def)

section \<open>An expense without approval steps\<close>

lemma evaluateRule_empty:
  "(evaluateRule us [] rule = None) =
   (ruleType rule \<noteq> ''PERCENTAGE'' \<and> ruleType rule \<noteq> ''HYBRID'')"
  by (simp add: evaluateRule_def Let_def requiredApprovals_empty approvedApprovals_def)

lemma evaluateRules_empty:
  "(finalDecision (evaluateRules us [] rules) = None) =
   (\<forall>r \<in> set rules. ruleType r \<noteq> ''PERCENTAGE'' \<and> ruleType r \<noteq> ''HYBRID'')"
proof (cases "evaluateRuleLoop us [] rules")
  case None
  then show ?thesis
    using evaluateRuleLoop_None_iff [of us "[]" rules]
    by (simp add: evaluateRules_def evaluateRule_empty pendingApprovalsOf_def
          approvedApprovals_def)
next
  case (Some res)
  then have "\<not> (\<forall>r \<in> set rules. evaluateRule us [] r = None)"
    using evaluateRuleLoop_None_iff [of us "[]" rules] by simp
  then show ?thesis
    using Some evaluateRuleLoop_Some_approved [OF Some]
    by (simp add: evaluateRules_def evaluateRule_empty)
qed

lemma evaluateRules_empty_cases:
  "finalDecision (evaluateRules us [] rules) = None
   \<or> finalDecision (evaluateRules us [] rules) = Some APPROVED"
  by (cases "evaluateRuleLoop us [] rules")
     (auto simp: evaluateRules_def pendingApprovalsOf_def approvedApprovals_def
        dest: evaluateRuleLoop_Some_approved)

text \<open>
  C9 (as the code has it). An expense whose approval sequence resolved to zero steps
  remains PENDING: every call of processApproval on it raises "No pending approval
  found for this user" before the evaluator is called and leaves the store as it was,
  so no automatic path sets the expense APPROVED. evaluateApprovalRules itself, on the
  empty step set, returns a null verdict exactly when no active rule is a Percentage or
  Hybrid rule; otherwise it returns APPROVED, the required count being 0.
\<close>

theorem zero_step_expense_stays_pending:
  assumes "\<forall>a \<in> set (expenseApprovals db). expenseId a \<noteq> eid"
  shows "processApproval now db eid uid decision cmt
           = (Inl (Error ''No pending approval found for this user''), db)
         \<and> (find (\<lambda>e. expId e = eid) (expenses db) = Some e \<longrightarrow>
             (\<exists>res. evaluateApprovalRules db eid = Inr res
                \<and> (finalDecision res = None) =
                    (\<forall>r \<in> set (activeRules db (expCompanyId e)).
                       ruleType r \<noteq> ''PERCENTAGE'' \<and> ruleType r \<noteq> ''HYBRID'')
                \<and> (finalDecision res \<noteq> None \<longrightarrow> finalDecision res = Some APPROVED)))"
proof -
  have "\<forall>a \<in> set (expenseApprovals db). \<not> pendingStepOf eid uid a"
    using assms by (simp add: pendingStepOf_def)
  then have first: "processApproval now db eid uid decision cmt
           = (Inl (Error ''No pending approval found for this user''), db)"
    by (simp add: processApproval_def updateManyPending_none)
  have "filter (\<lambda>a. expenseId a = eid) (expenseApprovals db) = []"
    using assms by (simp add: filter_empty_conv)
  then have empty: "approvalsOfExpense db eid = []"
    by (simp add: approvalsOfExpense_def)
  let ?res = "evaluateRules (users db) [] (activeRules db (expCompanyId e))"
  have null: "(finalDecision ?res = None) =
      (\<forall>r \<in> set (activeRules db (expCompanyId e)).
         ruleType r \<noteq> ''PERCENTAGE'' \<and> ruleType r \<noteq> ''HYBRID'')"
    by (rule evaluateRules_empty)
  have other: "finalDecision ?res \<noteq> None \<longrightarrow> finalDecision ?res = Some APPROVED"
    using evaluateRules_empty_cases [of "users db" "activeRules db (expCompanyId e)"]
    by auto
  show ?thesis
  proof (intro conjI impI)
    show "processApproval now db eid uid decision cmt
           = (Inl (Error ''No pending approval found for this user''), db)"
      by (rule first)
  next
    assume "find (\<lambda>e. expId e = eid) (expenses db) = Some e"
    then have eq: "evaluateApprovalRules db eid = Inr ?res"
      by (simp add: evaluateApprovalRules_def empty)
    show "\<exists>res. evaluateApprovalRules db eid = Inr res
            \<and> (finalDecision res = None) =
                (\<forall>r \<in> set (activeRules db (expCompanyId e)).
                   ruleType r \<noteq> ''PERCENTAGE'' \<and> ruleType r \<noteq> ''HYBRID'')
            \<and> (finalDecision res \<noteq> None \<longrightarrow> finalDecision res = Some APPROVED)"
      unfolding eq using null other by (intro exI [of _ ?res]) simp
  qed
qed

theorem zero_step_expense_stays_pending_witness:
  "processApproval 7 (exampleStore None [] [percentageRule (Num 1 (- 1))]) 1 2 APPROVED None
     = (Inl (Error ''No pending approval found for this user''),
        exampleStore None [] [percentageRule (Num 1 (- 1))])
   \<and> (\<exists>res. evaluateApprovalRules (exampleStore None [] [specificRoleRule ''MANAGER'']) 1
               = Inr res \<and> finalDecision res = None)"
  using zero_step_expense_stays_pending
    [of "exampleStore None [] [percentageRule (Num 1 (- 1))]" 1 7 2 APPROVED None
        exampleExpense]
    zero_step_expense_stays_pending
    [of "exampleStore None [] [specificRoleRule ''MANAGER'']" 1 7 2 APPROVED None
        exampleExpense]
  by (auto simp add: exampleStore_def exampleExpense_def activeRules_def specificRoleRule_def)

text \<open>
  C9 as stated fails: on the empty step set of an expense whose company has a
  Percentage rule of 0.5, the evaluator returns APPROVED, not a null verdict.
\<close>

theorem empty_step_set_counterexample:
  "evaluateApprovalRules (exampleStore None [] [percentageRule (Num 1 (- 1))]) 1
   = Inr (approvedResult (PercentageRuleSatisfied 50) (Some []))"
  by (simp add: example_defs evaluator_defs)

section \<open>The order column of the steps that createApprovalSequence creates\<close>

lemma asciiToUpperCase_manager: "asciiToUpperCase ''manager'' = ''MANAGER''"
  by code_simp

lemma asciiToUpperCase_cfo: "asciiToUpperCase ''cfo'' = ''CFO''"
  by code_simp

lemma resolveStep_users:
  "users db' = users db \<Longrightarrow>
   resolveStep toUpperCase db' cid uid step = resolveStep toUpperCase db cid uid step"
  by (simp add: resolveStep_def managerOf_def cong: option.case_cong sequenceStep.case_cong)

lemma createApproval_users:
  "createApproval now eid aid arole ord db = (a, db') \<Longrightarrow> users db' = users db"
  by (auto simp: createApproval_def Let_def)

lemma createApproval_order:
  "createApproval now eid aid arole ord db = (a, db') \<Longrightarrow> order a = ord"
  by (auto simp: createApproval_def Let_def)

lemma upt_shift: "[0..<Suc n] = 0 # map Suc [0..<n]"
  by (simp add: upt_conv_Cons map_Suc_upt del: upt_Suc)

lemma sequenceLoop_orders:
  "users db' = users db \<Longrightarrow>
   map order (fst (sequenceLoop toUpperCase now eid cid uid i steps db'))
     = map (\<lambda>j. int (i + j))
         (filter (\<lambda>j. resolves toUpperCase db cid uid (steps ! j)) [0..<length steps])"
proof (induction steps arbitrary: i db')
  case Nil
  then show ?case by simp
next
  case (Cons step steps)
  have shift: "map (\<lambda>j. int (i + j))
                 (filter (\<lambda>j. resolves toUpperCase db cid uid ((step # steps) ! j))
                    (map Suc [0..<length steps]))
               = map (\<lambda>j. int (Suc i + j))
                 (filter (\<lambda>j. resolves toUpperCase db cid uid (steps ! j)) [0..<length steps])"
    by (simp add: filter_map comp_def)
  obtain aid arole where rs: "resolveStep toUpperCase db' cid uid step = (aid, arole)"
    by (cases "resolveStep toUpperCase db' cid uid step")
  then have rs': "resolveStep toUpperCase db cid uid step = (aid, arole)"
    using resolveStep_users [OF Cons.prems] by simp
  show ?case
  proof (cases "truthyNumber aid")
    case True
    obtain a db1 where cr: "createApproval now eid (the aid) arole (int i) db' = (a, db1)"
      by (cases "createApproval now eid (the aid) arole (int i) db'")
    then have u1: "users db1 = users db"
      using createApproval_users Cons.prems by metis
    have oa: "order a = int i" using cr by (rule createApproval_order)
    obtain as db2 where
      lp: "sequenceLoop toUpperCase now eid cid uid (Suc i) steps db1 = (as, db2)"
      by (cases "sequenceLoop toUpperCase now eid cid uid (Suc i) steps db1")
    have "map order as = map (\<lambda>j. int (Suc i + j))
            (filter (\<lambda>j. resolves toUpperCase db cid uid (steps ! j)) [0..<length steps])"
      using Cons.IH [OF u1, of "Suc i"] lp by simp
    then show ?thesis
      using True rs rs' cr lp oa shift
      by (simp add: upt_shift resolves_def del: upt_Suc)
  next
    case False
    then show ?thesis
      using rs rs' Cons.IH [OF Cons.prems, of "Suc i"] shift
      by (simp add: upt_shift resolves_def del: upt_Suc)
  qed
qed

lemma sorted_wrt_map_int_filter:
  "sorted_wrt (<) (map int (filter P [0..<n]))"
proof -
  have "sorted_wrt (<) (filter P [0..<n])"
    by (rule sorted_wrt_filter) simp
  then show ?thesis by (simp add: sorted_wrt_map)
qed

text \<open>
  C3 (as the code has it). When the company has an active sequence definition, the
  order value of each ApprovalStep that createApprovalSequence creates is the zero-based
  position of its step in the definition. The order values are therefore strictly
  increasing, and they are the contiguous integers from 0 when every definition step
  resolves; a definition step that does not resolve creates no record and keeps its
  position, so the order values skip it.
\<close>

theorem order_is_definition_index:
  assumes "find (\<lambda>s. seqCompanyId s = cid \<and> seqIsActive s) (approvalSequences db) = Some seq"
  shows "map order (fst (createApprovalSequence toUpperCase now db eid cid uid))
           = map int (filter (\<lambda>j. resolves toUpperCase db cid uid (sequence seq ! j))
                        [0..<length (sequence seq)])
         \<and> sorted_wrt (<) (map order (fst (createApprovalSequence toUpperCase now db eid cid uid)))
         \<and> ((\<forall>j < length (sequence seq). resolves toUpperCase db cid uid (sequence seq ! j)) \<longrightarrow>
              map order (fst (createApprovalSequence toUpperCase now db eid cid uid))
                = map int [0..<length (sequence seq)])"
proof -
  have eq: "map order (fst (createApprovalSequence toUpperCase now db eid cid uid))
           = map int (filter (\<lambda>j. resolves toUpperCase db cid uid (sequence seq ! j))
                        [0..<length (sequence seq)])"
    using assms sequenceLoop_orders [of db db toUpperCase now eid cid uid 0 "sequence seq"]
    by (simp add: createApprovalSequence_def)
  have all: "(\<forall>j < length (sequence seq). resolves toUpperCase db cid uid (sequence seq ! j)) \<longrightarrow>
          filter (\<lambda>j. resolves toUpperCase db cid uid (sequence seq ! j))
              [0..<length (sequence seq)]
            = [0..<length (sequence seq)]"
    by (simp add: filter_id_conv)
  show ?thesis
    unfolding eq using all sorted_wrt_map_int_filter by simp
qed

theorem order_is_definition_index_witness:
  "map order (fst (createApprovalSequence asciiToUpperCase 0
      (exampleStore (Some [StepManager, StepRole ''cfo'', StepUser 3]) [] []) 1 1 1)) = [0, 2]"
  using order_is_definition_index
    [of 1 "exampleStore (Some [StepManager, StepRole ''cfo'', StepUser 3]) [] []"
        "\<lparr>seqCompanyId = 1, seqIsActive = True,
          sequence = [StepManager, StepRole ''cfo'', StepUser 3]\<rparr>" asciiToUpperCase 0 1 1]
  by (simp add: exampleStore_def exampleUsers_def resolves_def resolveStep_def managerOf_def
        truthyNumber_def asciiToUpperCase_cfo upt_shift del: upt_Suc)

text \<open>
  C3 as stated fails: with the definition (role "cfo", manager) and no active user
  holding the role CFO, the only step created has order 1, not 0.
\<close>

theorem order_contiguous_counterexample:
  "map order (fst (createApprovalSequence asciiToUpperCase 0
      (exampleStore (Some [StepRole ''cfo'', StepManager]) [] []) 1 1 1)) = [1]
   \<and> map order (fst (createApprovalSequence asciiToUpperCase 0
      (exampleStore (Some [StepRole ''cfo'', StepManager]) [] []) 1 1 1))
     \<noteq> map int [0..<length (fst (createApprovalSequence asciiToUpperCase 0
      (exampleStore (Some [StepRole ''cfo'', StepManager]) [] []) 1 1 1))]"
  by (simp add: exampleStore_def exampleUsers_def builder_defs asciiToUpperCase_cfo Let_def)

section \<open>Inputs on which the code leaves the specification\<close>

text \<open>
  C4 (the code at a failing input). Two steps carry the role label MANAGER, the first
  is PENDING and the second APPROVED, no step is REJECTED and the only rule is the
  Specific rule for the role MANAGER: the evaluator looks at the first step with the
  label only and returns a null verdict.
\<close>

theorem specific_role_reads_first_step_only:
  "evaluateApprovalRules
     (exampleStore None
        [approvalRow 1 2 (Some ''MANAGER'') PENDING 0,
         approvalRow 2 4 (Some ''MANAGER'') APPROVED 1]
        [specificRoleRule ''MANAGER'']) 1
   = Inr \<lparr>finalDecision = None, reason = AwaitingMoreApprovals, rejectedBy = None,
          rejectionComment = None, approvedBy = None, pendingApprovals = Some 1,
          totalApprovals = Some 2\<rparr>"
  by (simp add: example_defs specificRoleRule_def evaluator_defs)

text \<open>
  C8 (the code at a failing input). The sequence (manager, role "manager") gives the
  employee's manager, who is also the first active user with the role MANAGER, two
  PENDING steps on the expense; one decision of that approver then sets both steps to
  APPROVED.
\<close>

theorem one_decision_updates_every_pending_step:
  "map approverId (expenseApprovals (snd (createApprovalSequence asciiToUpperCase 0
       (exampleStore (Some [StepManager, StepRole ''manager'']) [] []) 1 1 1)))
     = [Some 2, Some 2]
   \<and> map status (expenseApprovals (snd (createApprovalSequence asciiToUpperCase 0
       (exampleStore (Some [StepManager, StepRole ''manager'']) [] []) 1 1 1)))
     = [PENDING, PENDING]
   \<and> map status (expenseApprovals (snd (processApproval 5
         (snd (createApprovalSequence asciiToUpperCase 0
            (exampleStore (Some [StepManager, StepRole ''manager'']) [] []) 1 1 1))
         1 2 APPROVED None)))
     = [APPROVED, APPROVED]"
  by (simp add: example_defs builder_defs asciiToUpperCase_manager coordinator_defs
        evaluator_defs Let_def)

lemma afterTwoApprovals_eq:
  "afterTwoApprovals =
     \<lparr>users = exampleUsers,
      expenses = [exampleExpense\<lparr>expStatus := ExpenseAPPROVED, expUpdatedAt := 2\<rparr>],
      approvalSequences = [],
      expenseApprovals =
        [(approvalRow 1 2 None APPROVED 0)\<lparr>updatedAt := 1\<rparr>,
         (approvalRow 2 3 None APPROVED 1)\<lparr>updatedAt := 2\<rparr>,
         approvalRow 3 4 None PENDING 2],
      approvalRules = [percentageRule (Num 1 (- 1))]\<rparr>"
  by (simp add: afterTwoApprovals_def example_defs coordinator_defs evaluator_defs Let_def)

text \<open>
  C2 (the code at a failing input). Three approvers, a Percentage rule of 0.5: after
  the first two approve, the expense is APPROVED and the third step is still PENDING;
  when the third approver then rejects, the expense becomes REJECTED.
\<close>

theorem later_rejection_overwrites_approved_expense:
  "map expStatus (expenses afterTwoApprovals) = [ExpenseAPPROVED]
   \<and> map status (expenseApprovals afterTwoApprovals) = [APPROVED, APPROVED, PENDING]
   \<and> map expStatus (expenses (snd (processApproval 3 afterTwoApprovals 1 4 REJECTED None)))
       = [ExpenseREJECTED]"
  by (simp add: afterTwoApprovals_eq example_defs coordinator_defs evaluator_defs Let_def)

end
